theory Spec2Isabelle
  imports Main "HOL-Library.Sublist"
begin

section \<open>Data model (utils/promptGenerator)\<close>

text \<open>
  The interfaces \<^verbatim>\<open>Requirement\<close> and \<^verbatim>\<open>ProjectSpec\<close> of the prompt generator.
  The union type \<^verbatim>\<open>'active' | 'superseded'\<close> is a datatype; the optional fields
  (\<^verbatim>\<open>supersedes?\<close>, \<^verbatim>\<open>ui_preferences?\<close>, \<^verbatim>\<open>raw_transcript_snapshot?\<close>) are options,
  \<open>None\<close> standing for an absent field. The field \<^verbatim>\<open>id\<close> is called \<open>req_id\<close>, since
  \<open>id\<close> is the identity function of HOL.
\<close>

datatype status = active | superseded

record Requirement =
  req_id :: nat
  description :: string
  status :: status
  supersedes :: "nat option"

record ProjectSpec =
  project_summary :: string
  requirements :: "Requirement list"
  tech_stack :: "string list"
  ui_preferences :: "string list option"
  raw_transcript_snapshot :: "string option"

datatype AgenticTool = lovable | bolt | replit | v0

fun TOOL_URLS :: "AgenticTool \<Rightarrow> string" where
  "TOOL_URLS lovable = ''https://lovable.dev''"
| "TOOL_URLS bolt = ''https://bolt.new''"
| "TOOL_URLS replit = ''https://replit.com/agent''"
| "TOOL_URLS v0 = ''https://v0.dev''"

fun TOOL_NAMES :: "AgenticTool \<Rightarrow> string" where
  "TOOL_NAMES lovable = ''Lovable''"
| "TOOL_NAMES bolt = ''Bolt.new''"
| "TOOL_NAMES replit = ''Replit Agent''"
| "TOOL_NAMES v0 = ''v0 by Vercel''"

section \<open>Prompt assembly\<close>

text \<open>
  \<^verbatim>\<open>Array.prototype.join\<close>: the empty array gives the empty string, and the separator
  stands between any two neighbours.
\<close>

fun join :: "string \<Rightarrow> string list \<Rightarrow> string" where
  "join sep [] = []"
| "join sep [x] = x"
| "join sep (x # y # ys) = x @ sep @ join sep (y # ys)"

definition activeRequirements :: "ProjectSpec \<Rightarrow> Requirement list" where
  "activeRequirements spec = filter (\<lambda>r. status r = active) (requirements spec)"

definition supersededRequirements :: "ProjectSpec \<Rightarrow> Requirement list" where
  "supersededRequirements spec = filter (\<lambda>r. status r = superseded) (requirements spec)"

text \<open>
  \<^verbatim>\<open>generateSuperPrompt\<close>. The template literal is the concatenation of its fixed pieces
  and its interpolations. A statement \<^verbatim>\<open>if (c) prompt += x\<close> appends \<open>x\<close> when \<open>c\<close> holds
  and the empty string otherwise. An optional array is truthy when it is present; a string is
  truthy when it is present and not empty.
\<close>

definition generateSuperPrompt :: "ProjectSpec \<Rightarrow> string" where
  "generateSuperPrompt spec =
     ''Build a web application with the following specifications:\<newline>\<newline>## Project Summary\<newline>''
     @ project_summary spec
     @ ''\<newline>\<newline>## Tech Stack\<newline>''
     @ (if length (tech_stack spec) > 0 then join '', '' (tech_stack spec)
        else ''Use modern best practices - suggest appropriate technologies'')
     @ ''\<newline>\<newline>## Requirements\<newline>''
     @ join ''\<newline>'' (map (\<lambda>r. ''- '' @ description r) (activeRequirements spec))
     @ ''\<newline>''
     @ (case ui_preferences spec of
          Some ps \<Rightarrow>
            if length ps > 0
            then ''\<newline>## UI/UX Preferences\<newline>''
                 @ join ''\<newline>'' (map (\<lambda>p. ''- '' @ p) ps) @ ''\<newline>''
            else []
        | None \<Rightarrow> [])
     @ ''\<newline>Please start by scaffolding the main components and implementing the core features.''
     @ (case raw_transcript_snapshot spec of
          Some t \<Rightarrow>
            if length t > 0
            then ''\<newline>\<newline>## Raw Transcript Reference\<newline><details>\<newline><summary>Full conversation transcript</summary>\<newline>\<newline>''
                 @ t @ ''\<newline>\<newline></details>''
            else []
        | None \<Rightarrow> [])"

text \<open>
  \<^verbatim>\<open>generateDetailedPrompt\<close>: the basic prompt, then the superseded requirements struck
  through, then the transcript block once more.
\<close>

definition generateDetailedPrompt :: "ProjectSpec \<Rightarrow> string" where
  "generateDetailedPrompt spec =
     generateSuperPrompt spec
     @ (if length (supersededRequirements spec) > 0
        then ''\<newline>\<newline>## Historical Context (Changed Requirements)\<newline>The following requirements were initially discussed but later changed:\<newline>''
             @ join ''\<newline>'' (map (\<lambda>r. ''- ~~'' @ description r @ ''~~'') (supersededRequirements spec))
             @ ''\<newline>''
        else [])
     @ (case raw_transcript_snapshot spec of
          Some t \<Rightarrow>
            if length t > 0
            then ''\<newline>## Raw Transcript Reference\<newline><details>\<newline><summary>Full conversation transcript</summary>\<newline>\<newline>''
                 @ t @ ''\<newline>\<newline></details>''
            else []
        | None \<Rightarrow> [])"

text \<open>
  \<^verbatim>\<open>downloadPromptAsFile\<close> is the one export function that reads the clock: the name of
  the file carries the date of the day, which the model takes as an argument
  (\<^verbatim>\<open>new Date().toISOString().split('T')[0]\<close>). The prompt generators above take none.
\<close>

record Download =
  download_name :: string
  download_type :: string
  download_content :: string

definition downloadPromptAsFile :: "string \<Rightarrow> ProjectSpec \<Rightarrow> Download" where
  "downloadPromptAsFile today spec =
     \<lparr>download_name = ''devdraft-spec-'' @ today @ ''.md'',
      download_type = ''text/markdown'',
      download_content = generateDetailedPrompt spec\<rparr>"

subsection \<open>The parts of the prompt\<close>

text \<open>
  Names for the parts the properties below speak of. \<open>prompt_head\<close> is everything up to and including
  the project summary, \<open>tech_stack_body\<close> the text under the header \<^verbatim>\<open>## Tech Stack\<close>,
  \<open>listed_requirements\<close> the descriptions listed under \<^verbatim>\<open>## Requirements\<close>, one line
  \<^verbatim>\<open>- description\<close> each, \<open>prompt_tail\<close> everything after the Requirements section, and
  \<open>transcript_block\<close> the section \<^verbatim>\<open>## Raw Transcript Reference\<close> with its transcript.
\<close>

definition prompt_head :: "string \<Rightarrow> string" where
  "prompt_head summary =
     ''Build a web application with the following specifications:\<newline>\<newline>## Project Summary\<newline>''
     @ summary"

definition tech_stack_body :: "string list \<Rightarrow> string" where
  "tech_stack_body ts =
     (if ts = [] then ''Use modern best practices - suggest appropriate technologies''
      else join '', '' ts)"

definition listed_requirements :: "ProjectSpec \<Rightarrow> string list" where
  "listed_requirements spec =
     map description (filter (\<lambda>r. status r = active) (requirements spec))"

definition requirements_section :: "string list \<Rightarrow> string" where
  "requirements_section ds = join ''\<newline>'' (map (\<lambda>d. ''- '' @ d) ds)"

definition ui_section :: "string list option \<Rightarrow> string" where
  "ui_section ui =
     (case ui of
        Some ps \<Rightarrow>
          if length ps > 0
          then ''\<newline>## UI/UX Preferences\<newline>''
               @ join ''\<newline>'' (map (\<lambda>p. ''- '' @ p) ps) @ ''\<newline>''
          else []
      | None \<Rightarrow> [])"

definition transcript_block :: "string \<Rightarrow> string" where
  "transcript_block t =
     ''## Raw Transcript Reference\<newline><details>\<newline><summary>Full conversation transcript</summary>\<newline>\<newline>''
     @ t @ ''\<newline>\<newline></details>''"

definition closing_line :: string where
  "closing_line =
     ''\<newline>Please start by scaffolding the main components and implementing the core features.''"

definition prompt_tail :: "string list option \<Rightarrow> string option \<Rightarrow> string" where
  "prompt_tail ui raw =
     ui_section ui @ closing_line
     @ (case raw of
          Some t \<Rightarrow> if length t > 0 then ''\<newline>\<newline>'' @ transcript_block t else []
        | None \<Rightarrow> [])"

definition prompt_core :: "ProjectSpec \<Rightarrow> string" where
  "prompt_core spec =
     prompt_head (project_summary spec)
     @ ''\<newline>\<newline>## Tech Stack\<newline>'' @ tech_stack_body (tech_stack spec)
     @ ''\<newline>\<newline>## Requirements\<newline>''
     @ requirements_section (listed_requirements spec) @ ''\<newline>''
     @ ui_section (ui_preferences spec) @ closing_line"

definition historical_context :: "ProjectSpec \<Rightarrow> string" where
  "historical_context spec =
     (if length (supersededRequirements spec) > 0
      then ''\<newline>\<newline>## Historical Context (Changed Requirements)\<newline>The following requirements were initially discussed but later changed:\<newline>''
           @ join ''\<newline>'' (map (\<lambda>r. ''- ~~'' @ description r @ ''~~'') (supersededRequirements spec))
           @ ''\<newline>''
      else [])"

text \<open>What the generators read of their argument: every field but the ids and the
  supersession links of the requirements.\<close>

definition prompt_inputs ::
  "ProjectSpec \<Rightarrow> string \<times> (string \<times> status) list \<times> string list \<times> string list option \<times> string option" where
  "prompt_inputs spec =
     (project_summary spec,
      map (\<lambda>r. (description r, status r)) (requirements spec),
      tech_stack spec, ui_preferences spec, raw_transcript_snapshot spec)"

text \<open>Two sample specifications. The first is the one of the API schema in the README;
  in the second the client has gone back to the navbar after choosing a sidebar.\<close>

definition sidebar_spec :: ProjectSpec where
  "sidebar_spec =
     \<lparr>project_summary = ''A dashboard for crypto tracking'',
      requirements =
        [\<lparr>req_id = 1, description = ''Dark mode UI'', status = active, supersedes = None\<rparr>,
         \<lparr>req_id = 2, description = ''Use sidebar navigation'', status = active, supersedes = Some 3\<rparr>,
         \<lparr>req_id = 3, description = ''Use navbar navigation'', status = superseded, supersedes = None\<rparr>],
      tech_stack = [''React'', ''Tailwind''],
      ui_preferences = Some [''Dark theme''],
      raw_transcript_snapshot = Some ''use a sidebar''\<rparr>"

definition navbar_spec :: ProjectSpec where
  "navbar_spec =
     \<lparr>project_summary = ''A dashboard'',
      requirements =
        [\<lparr>req_id = 1, description = ''Use navbar navigation'', status = superseded, supersedes = None\<rparr>,
         \<lparr>req_id = 2, description = ''Use sidebar navigation'', status = superseded, supersedes = Some 1\<rparr>,
         \<lparr>req_id = 3, description = ''Use navbar navigation'', status = active, supersedes = Some 2\<rparr>],
      tech_stack = [],
      ui_preferences = None,
      raw_transcript_snapshot = None\<rparr>"

section \<open>Clipboard export\<close>

text \<open>
  \<^verbatim>\<open>copyToClipboardAndRedirect\<close> runs in a browser: the model passes the browser along.
  \<^verbatim>\<open>navigator.clipboard.writeText\<close> either resolves, and the clipboard holds the text, or
  rejects (no permission, no focus, no clipboard in an insecure context); \<open>clipboard_ok\<close>
  says which. \<^verbatim>\<open>window.open\<close> with one of the four fixed URLs returns a window or
  \<^verbatim>\<open>null\<close> and does not throw; \<^verbatim>\<open>console.error\<close> logs. A rejected promise of the
  function itself would be \<open>Inl\<close>.
\<close>

datatype js_error = ClipboardError

record Browser =
  clipboard_ok :: bool
  clipboard_text :: string
  opened :: "(string \<times> string) list"
  console_errors :: "string list"

record CopyResult =
  success :: bool
  message :: string

definition writeText :: "Browser \<Rightarrow> string \<Rightarrow> js_error + Browser" where
  "writeText b text =
     (if clipboard_ok b then Inr (b\<lparr>clipboard_text := text\<rparr>) else Inl ClipboardError)"

definition window_open :: "Browser \<Rightarrow> string \<Rightarrow> string \<Rightarrow> Browser" where
  "window_open b url target = b\<lparr>opened := opened b @ [(url, target)]\<rparr>"

definition console_error :: "Browser \<Rightarrow> string \<Rightarrow> Browser" where
  "console_error b text = b\<lparr>console_errors := console_errors b @ [text]\<rparr>"

text \<open>The body of the \<^verbatim>\<open>try\<close> block, then the function with its \<^verbatim>\<open>catch\<close>.\<close>

definition copy_try :: "Browser \<Rightarrow> string \<Rightarrow> AgenticTool \<Rightarrow> js_error + Browser \<times> CopyResult" where
  "copy_try b prompt tool =
     (case writeText b prompt of
        Inl e \<Rightarrow> Inl e
      | Inr b1 \<Rightarrow>
          let url = TOOL_URLS tool;
              b2 = window_open b1 url ''_blank''
          in Inr (b2, \<lparr>success = True,
                       message = ''Prompt copied! Opening '' @ TOOL_NAMES tool @ ''...''\<rparr>))"

definition copyToClipboardAndRedirect ::
  "Browser \<Rightarrow> string \<Rightarrow> AgenticTool \<Rightarrow> js_error + Browser \<times> CopyResult" where
  "copyToClipboardAndRedirect b prompt tool =
     (case copy_try b prompt tool of
        Inr r \<Rightarrow> Inr r
      | Inl error \<Rightarrow>
          Inr (console_error b ''Failed to copy to clipboard:'',
               \<lparr>success = False,
                message = ''Failed to copy to clipboard. Please try again.''\<rparr>))"

definition sample_browser :: "bool \<Rightarrow> Browser" where
  "sample_browser ok =
     \<lparr>clipboard_ok = ok, clipboard_text = [], opened = [], console_errors = []\<rparr>"

section \<open>The side panel (sidepanel.tsx)\<close>

text \<open>
  The state of the component \<^verbatim>\<open>SidePanel\<close>: its \<^verbatim>\<open>useState\<close> cells and refs, as far as
  the capture handlers touch them. \<open>socketRef\<close> is \<open>None\<close> for \<^verbatim>\<open>null\<close> and otherwise the
  ready state of the socket; \<open>recorder_active\<close> says that \<^verbatim>\<open>mediaRecorderRef.current\<close>
  exists and is not inactive; \<open>sent\<close> is what went out on the socket. A captured stream is
  the number of its audio tracks.
\<close>

datatype capture_status = Disconnected | Connected | Error | Recording

datatype ready_state = CONNECTING | OPEN | CLOSING | CLOSED

datatype client_msg = start_capture | stop_capture

record PanelState =
  panel_status :: capture_status
  stream :: "nat option"
  transcript :: string
  fullTranscript :: string
  projectSpec :: "ProjectSpec option"
  wordCountProgress :: int
  buildStatus :: string
  socketRef :: "ready_state option"
  recorder_active :: bool
  sent :: "client_msg list"

text \<open>
  What arrives on the socket: \<^verbatim>\<open>JSON.parse\<close> throws on \<open>Malformed\<close> data, and the
  handler's \<^verbatim>\<open>catch\<close> logs it; a parsed message has one of the three types the handler
  knows, or another one. The handler stores the data of a \<^verbatim>\<open>project_spec\<close> message as
  it arrives, unchecked: a specification of the wire shape, or \<open>None\<close> when the data is
  \<^verbatim>\<open>null\<close> or absent. (Data of any other shape is outside this model.)
\<close>

datatype server_msg =
  transcript_msg string
| word_count_msg int
| project_spec_msg "ProjectSpec option"
| other_msg

datatype ws_data = Json server_msg | Malformed

text \<open>\<^verbatim>\<open>s.slice(-n)\<close>: the last \<open>n\<close> characters, the whole string when it is shorter.\<close>

definition slice_last :: "nat \<Rightarrow> string \<Rightarrow> string" where
  "slice_last n s = drop (length s - n) s"

fun onmessage :: "PanelState \<Rightarrow> ws_data \<Rightarrow> PanelState" where
  "onmessage s Malformed = s"
| "onmessage s (Json (transcript_msg d)) =
     s\<lparr>transcript := slice_last 300 (transcript s @ '' '' @ d),
       fullTranscript := fullTranscript s @ '' '' @ d\<rparr>"
| "onmessage s (Json (word_count_msg n)) = s\<lparr>wordCountProgress := n\<rparr>"
| "onmessage s (Json (project_spec_msg d)) =
     s\<lparr>projectSpec := d, wordCountProgress := 0\<rparr>"
| "onmessage s (Json other_msg) = s"

text \<open>\<^verbatim>\<open>ws.onerror\<close> tests the \<^verbatim>\<open>status\<close> its closure captured; \<^verbatim>\<open>ws.onclose\<close>.\<close>

definition onerror :: "capture_status \<Rightarrow> PanelState \<Rightarrow> PanelState" where
  "onerror captured s = (if captured = Disconnected then s\<lparr>panel_status := Error\<rparr> else s)"

definition onclose :: "PanelState \<Rightarrow> PanelState" where
  "onclose s = s\<lparr>socketRef := None, panel_status := Disconnected\<rparr>"

definition stopCapture :: "PanelState \<Rightarrow> PanelState" where
  "stopCapture s =
     (let s1 = (if recorder_active s then s\<lparr>recorder_active := False\<rparr> else s);
          s2 = (case stream s1 of Some tracks \<Rightarrow> s1\<lparr>stream := None\<rparr> | None \<Rightarrow> s1);
          s3 = (if socketRef s2 = Some OPEN then s2\<lparr>sent := sent s2 @ [stop_capture]\<rparr> else s2)
      in s3\<lparr>panel_status := Disconnected\<rparr>)"

text \<open>
  \<^verbatim>\<open>startCapture\<close> awaits the screen-share dialog and, without an open socket, the
  connection; the model takes their outcomes, and whether the media recorder can be
  created and started, as arguments. \<open>capture_failed\<close> is the \<^verbatim>\<open>catch\<close> block;
  \<open>begin_session\<close> the statements from \<^verbatim>\<open>ws.send\<close> on, which reset the state of the
  session. A connection that never settles leaves the function suspended.
\<close>

datatype media_outcome = media_denied | media_granted nat

datatype connect_outcome = connect_opened | connect_rejected | connect_pending

definition capture_failed :: "PanelState \<Rightarrow> PanelState" where
  "capture_failed s =
     (let s1 = (if recorder_active s then s\<lparr>recorder_active := False\<rparr> else s);
          s2 = (case socketRef s1 of Some r \<Rightarrow> s1\<lparr>socketRef := Some CLOSING\<rparr> | None \<Rightarrow> s1)
      in s2\<lparr>panel_status := Error\<rparr>)"

definition begin_session :: "PanelState \<Rightarrow> nat \<Rightarrow> bool \<Rightarrow> PanelState" where
  "begin_session s tracks recorder_ok =
     (let s1 = s\<lparr>sent := sent s @ [start_capture]\<rparr>;
          s2 = s1\<lparr>stream := Some tracks, fullTranscript := [], transcript := [],
                 wordCountProgress := 0, projectSpec := None, buildStatus := []\<rparr>
      in if recorder_ok then s2\<lparr>recorder_active := True, panel_status := Recording\<rparr>
         else capture_failed s2)"

definition startCapture ::
  "PanelState \<Rightarrow> media_outcome \<Rightarrow> connect_outcome \<Rightarrow> bool \<Rightarrow> PanelState" where
  "startCapture s media conn recorder_ok =
     (let s1 = s\<lparr>panel_status := Connected\<rparr> in
      case media of
        media_denied \<Rightarrow> capture_failed s1
      | media_granted tracks \<Rightarrow>
          if tracks = 0 then s1\<lparr>panel_status := Disconnected\<rparr>
          else if socketRef s1 = Some OPEN then begin_session s1 tracks recorder_ok
          else (case conn of
                  connect_opened \<Rightarrow> begin_session (s1\<lparr>socketRef := Some OPEN\<rparr>) tracks recorder_ok
                | connect_rejected \<Rightarrow> capture_failed s1
                | connect_pending \<Rightarrow> s1))"

text \<open>\<open>starts_session\<close>: the call gets as far as the statements that reset the session.\<close>

definition starts_session :: "PanelState \<Rightarrow> media_outcome \<Rightarrow> connect_outcome \<Rightarrow> bool" where
  "starts_session s media conn =
     (case media of
        media_denied \<Rightarrow> False
      | media_granted tracks \<Rightarrow> tracks \<noteq> 0 \<and> (socketRef s = Some OPEN \<or> conn = connect_opened))"

text \<open>The events of the component and the run of a list of them.\<close>

datatype event =
  Message ws_data
| SocketError capture_status
| SocketClose
| StartCapture media_outcome connect_outcome bool
| StopCapture

fun step :: "PanelState \<Rightarrow> event \<Rightarrow> PanelState" where
  "step s (Message m) = onmessage s m"
| "step s (SocketError captured) = onerror captured s"
| "step s SocketClose = onclose s"
| "step s (StartCapture media conn recorder_ok) = startCapture s media conn recorder_ok"
| "step s StopCapture = stopCapture s"

fun is_StartCapture :: "event \<Rightarrow> bool" where
  "is_StartCapture (StartCapture media conn recorder_ok) = True"
| "is_StartCapture e = False"

text \<open>The transcript chunks a list of events delivers, in their order.\<close>

fun chunks :: "event list \<Rightarrow> string list" where
  "chunks [] = []"
| "chunks (Message (Json (transcript_msg d)) # es) = d # chunks es"
| "chunks (e # es) = chunks es"

definition initial_panel :: PanelState where
  "initial_panel =
     \<lparr>panel_status = Disconnected, stream = None, transcript = [], fullTranscript = [],
      projectSpec = None, wordCountProgress = 0, buildStatus = [], socketRef = None,
      recorder_active = False, sent = []\<rparr>"

text \<open>A panel in the middle of a session that holds a specification, and a run of
  events.\<close>

definition loaded_panel :: PanelState where
  "loaded_panel = initial_panel\<lparr>projectSpec := Some sidebar_spec, panel_status := Recording,
     socketRef := Some OPEN, stream := Some 1, recorder_active := True\<rparr>"

definition sample_events :: "event list" where
  "sample_events =
     [Message (Json (transcript_msg ''hello'')), Message (Json (word_count_msg 1)),
      Message Malformed, Message (Json (project_spec_msg (Some navbar_spec))), StopCapture,
      Message (Json (transcript_msg ''world''))]"

section \<open>The reconciliation engine\<close>

text \<open>
  The engine that merges a candidate specification into the committed one runs in the
  backend of the repository, whose code is not among the sources at hand; the definitions
  of this section follow section 4.3 of the specification, step by step.
\<close>

text \<open>Modelled from the spec: the candidate specification the extractor returns (the
  extractor and its result type are in the missing backend). A candidate requirement is a
  description with an optional supersession hint; the hint is an opaque token of type \<open>'h\<close>.\<close>

record 'h CandidateRequirement =
  cand_description :: string
  supersession_hint :: "'h option"

record 'h CandidateSpecification =
  cand_summary :: string
  cand_requirements :: "'h CandidateRequirement list"
  cand_tech_stack :: "string list"
  cand_ui_preferences :: "string list"

text \<open>Modelled from the spec: the session of the missing backend, which owns one committed
  specification and one next-identifier counter.\<close>

record Session =
  committed :: ProjectSpec
  next_id :: nat

text \<open>Modelled from the spec: the text comparison of the missing engine, case-insensitive
  and whitespace-normalised. A text is compared as its list of words in lower case.\<close>

definition lower :: "char \<Rightarrow> char" where
  "lower c =
     (let n = (of_char c :: nat) in if 65 \<le> n \<and> n \<le> 90 then char_of (n + 32) else c)"

definition is_space :: "char \<Rightarrow> bool" where
  "is_space c =
     (c = CHR '' '' \<or> c = CHR 0x09 \<or> c = CHR ''\<newline>'' \<or> c = CHR 0x0D)"

fun words_acc :: "string \<Rightarrow> string \<Rightarrow> string list" where
  "words_acc w [] = (if w = [] then [] else [w])"
| "words_acc w (c # cs) =
     (if is_space c then (if w = [] then words_acc [] cs else w # words_acc [] cs)
      else words_acc (w @ [c]) cs)"

definition normalize :: "string \<Rightarrow> string list" where
  "normalize text = words_acc [] (map lower text)"

definition same_text :: "string \<Rightarrow> string \<Rightarrow> bool" where
  "same_text a b = (normalize a = normalize b)"

text \<open>Modelled from the spec: step 2 of the missing engine, the union of the candidate's
  entries into the committed list, without duplicates up to case, in first-seen order.\<close>

definition ci_member :: "string \<Rightarrow> string list \<Rightarrow> bool" where
  "ci_member x xs = list_ex (\<lambda>y. map lower y = map lower x) xs"

definition union_ci :: "string list \<Rightarrow> string list \<Rightarrow> string list" where
  "union_ci old new = foldl (\<lambda>acc x. if ci_member x acc then acc else acc @ [x]) old new"

text \<open>Modelled from the spec: step 3a of the missing engine, the active requirement a hint
  refers to. \<open>resolves\<close> is the matching strategy of the extraction contract, which the
  specification leaves open; among several active requirements it resolves to, the one with
  the highest id is taken (the tie-break rule).\<close>

definition hint_target ::
  "('h \<Rightarrow> Requirement \<Rightarrow> bool) \<Rightarrow> Requirement list \<Rightarrow> 'h \<Rightarrow> Requirement option" where
  "hint_target resolves reqs h =
     (case filter (\<lambda>r. status r = active \<and> resolves h r) reqs of
        [] \<Rightarrow> None
      | r # rs \<Rightarrow> Some (foldl (\<lambda>best q. if req_id best < req_id q then q else best) r rs))"

text \<open>Modelled from the spec: marking a requirement of the missing engine's collection
  superseded; nothing is removed or reordered.\<close>

definition mark_superseded :: "nat \<Rightarrow> Requirement list \<Rightarrow> Requirement list" where
  "mark_superseded old reqs =
     map (\<lambda>r. if req_id r = old then r\<lparr>status := superseded\<rparr> else r) reqs"

text \<open>Modelled from the spec: step 3 of the missing engine for one candidate requirement,
  on the collection and the counter. (a) a hint that refers to an active requirement
  supersedes it and appends a new requirement with the next id; (b) otherwise a description
  that matches an active requirement changes nothing; (c) otherwise a new requirement with
  the next id is appended.\<close>

definition reconcile_requirement ::
  "('h \<Rightarrow> Requirement \<Rightarrow> bool) \<Rightarrow> Requirement list \<times> nat \<Rightarrow> 'h CandidateRequirement
     \<Rightarrow> Requirement list \<times> nat" where
  "reconcile_requirement resolves st c =
     (let reqs = fst st; n = snd st in
      case (case supersession_hint c of
              None \<Rightarrow> None
            | Some h \<Rightarrow> hint_target resolves reqs h) of
        Some old \<Rightarrow>
          (mark_superseded (req_id old) reqs
             @ [\<lparr>req_id = n, description = cand_description c, status = active,
                  supersedes = Some (req_id old)\<rparr>],
           Suc n)
      | None \<Rightarrow>
          if list_ex (\<lambda>r. status r = active \<and> same_text (description r) (cand_description c)) reqs
          then (reqs, n)
          else (reqs @ [\<lparr>req_id = n, description = cand_description c, status = active,
                         supersedes = None\<rparr>],
                Suc n))"

text \<open>Modelled from the spec: one reconciliation of the missing engine (steps 1 to 5), and a
  sequence of them from the empty initial state of a session. The first id is 1, as in the
  README's sample.\<close>

definition reconcile ::
  "('h \<Rightarrow> Requirement \<Rightarrow> bool) \<Rightarrow> Session \<Rightarrow> 'h CandidateSpecification \<Rightarrow> Session" where
  "reconcile resolves s c =
     (let spec = committed s;
          st = foldl (reconcile_requirement resolves) (requirements spec, next_id s)
                 (cand_requirements c)
      in \<lparr>committed = spec
            \<lparr>project_summary := cand_summary c,
             requirements := fst st,
             tech_stack := union_ci (tech_stack spec) (cand_tech_stack c),
             ui_preferences :=
               Some (union_ci (case ui_preferences spec of None \<Rightarrow> [] | Some ps \<Rightarrow> ps)
                       (cand_ui_preferences c))\<rparr>,
          next_id = snd st\<rparr>)"

definition new_session :: Session where
  "new_session =
     \<lparr>committed = \<lparr>project_summary = [], requirements = [], tech_stack = [],
                    ui_preferences = Some [], raw_transcript_snapshot = None\<rparr>,
      next_id = 1\<rparr>"

definition reconcile_all ::
  "('h \<Rightarrow> Requirement \<Rightarrow> bool) \<Rightarrow> Session \<Rightarrow> 'h CandidateSpecification list \<Rightarrow> Session" where
  "reconcile_all resolves s cs = foldl (reconcile resolves) s cs"

definition session_ids :: "Session \<Rightarrow> nat list" where
  "session_ids s = map req_id (requirements (committed s))"

text \<open>Modelled from the spec: what makes step 3 of the missing engine leave the collection
  alone for one candidate requirement. Its supersession hint, if it has one, resolves to no
  requirement that is active (step 3a does not fire), and its description matches that of an
  active requirement (step 3b does). A candidate brings no new information when it has the
  committed summary, technologies and preferences that are committed already, up to case, and
  requirements of this kind only.\<close>

definition restates_active ::
  "('h \<Rightarrow> Requirement \<Rightarrow> bool) \<Rightarrow> Requirement list \<Rightarrow> 'h CandidateRequirement \<Rightarrow> bool" where
  "restates_active resolves reqs cr =
     ((case supersession_hint cr of
         None \<Rightarrow> True
       | Some h \<Rightarrow> \<not> list_ex (\<lambda>r. status r = active \<and> resolves h r) reqs)
      \<and> list_ex (\<lambda>r. status r = active \<and> same_text (description r) (cand_description cr)) reqs)"


text \<open>Modelled from the spec: a matching strategy by text, and the candidate identical in
  content to a committed specification as an extractor of the missing backend that matches by
  text re-derives it. It has the committed summary, technologies and preferences, and the
  descriptions of the active requirements in their order (a candidate has no status, so a
  superseded requirement is no requirement of it), each flagged with the description of the
  requirement it supersedes, if it supersedes one.\<close>

definition resolves_by_text :: "string \<Rightarrow> Requirement \<Rightarrow> bool" where
  "resolves_by_text h r = same_text h (description r)"

definition linked_description :: "Requirement list \<Rightarrow> nat \<Rightarrow> string option" where
  "linked_description reqs j = map_option description (find (\<lambda>r. req_id r = j) reqs)"

definition identical_candidate :: "ProjectSpec \<Rightarrow> string CandidateSpecification" where
  "identical_candidate spec =
     \<lparr>cand_summary = project_summary spec,
      cand_requirements =
        map (\<lambda>r. \<lparr>cand_description = description r,
                  supersession_hint =
                    (case supersedes r of
                       None \<Rightarrow> None
                     | Some j \<Rightarrow> linked_description (requirements spec) j)\<rparr>)
          (activeRequirements spec),
      cand_tech_stack = tech_stack spec,
      cand_ui_preferences = (case ui_preferences spec of None \<Rightarrow> [] | Some ps \<Rightarrow> ps)\<rparr>"

text \<open>The candidates of a sample session: the client asks for a navbar and a dark mode and
  changes the navbar to a sidebar; then the extractor re-derives the same content in other
  letter case and spacing, restating the supersession.\<close>

definition first_candidate :: "string CandidateSpecification" where
  "first_candidate =
     \<lparr>cand_summary = ''A dashboard'',
      cand_requirements =
        [\<lparr>cand_description = ''Use navbar navigation'', supersession_hint = None\<rparr>,
         \<lparr>cand_description = ''Dark mode UI'', supersession_hint = None\<rparr>],
      cand_tech_stack = [''React''],
      cand_ui_preferences = []\<rparr>"

definition second_candidate :: "string CandidateSpecification" where
  "second_candidate =
     \<lparr>cand_summary = ''A dashboard'',
      cand_requirements =
        [\<lparr>cand_description = ''Dark mode UI'', supersession_hint = None\<rparr>,
         \<lparr>cand_description = ''Use sidebar navigation'',
          supersession_hint = Some ''use NAVBAR  navigation''\<rparr>],
      cand_tech_stack = [''react'', ''Tailwind''],
      cand_ui_preferences = []\<rparr>"


definition sample_session :: Session where
  "sample_session =
     \<lparr>committed =
        \<lparr>project_summary = ''A dashboard'',
         requirements =
           [\<lparr>req_id = 1, description = ''Use navbar navigation'', status = superseded,
              supersedes = None\<rparr>,
            \<lparr>req_id = 2, description = ''Dark mode UI'', status = active, supersedes = None\<rparr>,
            \<lparr>req_id = 3, description = ''Use sidebar navigation'', status = active,
              supersedes = Some 1\<rparr>],
         tech_stack = [''React'', ''Tailwind''],
         ui_preferences = Some [],
         raw_transcript_snapshot = None\<rparr>,
      next_id = 4\<rparr>"

text \<open>Three candidates in which the client asks for a navbar, changes it to a sidebar and
  goes back to the navbar; and the scenario of the specification's section 8: a committed
  requirement 3, the highest id so far, and a candidate that supersedes it.\<close>

definition navbar_candidates :: "string CandidateSpecification list" where
  "navbar_candidates =
     [\<lparr>cand_summary = ''A dashboard'',
       cand_requirements =
         [\<lparr>cand_description = ''Use navbar navigation'', supersession_hint = None\<rparr>],
       cand_tech_stack = [], cand_ui_preferences = []\<rparr>,
      \<lparr>cand_summary = ''A dashboard'',
       cand_requirements =
         [\<lparr>cand_description = ''Use sidebar navigation'',
           supersession_hint = Some ''Use navbar navigation''\<rparr>],
       cand_tech_stack = [], cand_ui_preferences = []\<rparr>,
      \<lparr>cand_summary = ''A dashboard'',
       cand_requirements =
         [\<lparr>cand_description = ''Use navbar navigation'',
           supersession_hint = Some ''Use sidebar navigation''\<rparr>],
       cand_tech_stack = [], cand_ui_preferences = []\<rparr>]"

definition scenario_session :: Session where
  "scenario_session =
     \<lparr>committed =
        \<lparr>project_summary = ''A shop'',
         requirements =
           [\<lparr>req_id = 1, description = ''Dark mode UI'', status = active, supersedes = None\<rparr>,
            \<lparr>req_id = 2, description = ''Show prices'', status = active, supersedes = None\<rparr>,
            \<lparr>req_id = 3, description = ''Use navbar navigation'', status = active,
              supersedes = None\<rparr>],
         tech_stack = [], ui_preferences = Some [], raw_transcript_snapshot = None\<rparr>,
      next_id = 4\<rparr>"

definition scenario_candidate :: "string CandidateSpecification" where
  "scenario_candidate =
     \<lparr>cand_summary = ''A shop'',
      cand_requirements =
        [\<lparr>cand_description = ''Use sidebar navigation'',
          supersession_hint = Some ''Use navbar navigation''\<rparr>],
      cand_tech_stack = [], cand_ui_preferences = []\<rparr>"

text \<open>A session in which the client has asked for a navbar, changed it to a sidebar and
  then asked for the navbar as well, so that both are active; and the candidates that lead
  to it.\<close>

definition returned_candidates :: "string CandidateSpecification list" where
  "returned_candidates =
     [\<lparr>cand_summary = ''A dashboard'',
       cand_requirements =
         [\<lparr>cand_description = ''Use navbar navigation'', supersession_hint = None\<rparr>],
       cand_tech_stack = [], cand_ui_preferences = []\<rparr>,
      \<lparr>cand_summary = ''A dashboard'',
       cand_requirements =
         [\<lparr>cand_description = ''Use sidebar navigation'',
           supersession_hint = Some ''Use navbar navigation''\<rparr>],
       cand_tech_stack = [], cand_ui_preferences = []\<rparr>,
      \<lparr>cand_summary = ''A dashboard'',
       cand_requirements =
         [\<lparr>cand_description = ''Use sidebar navigation'', supersession_hint = None\<rparr>,
          \<lparr>cand_description = ''Use navbar navigation'', supersession_hint = None\<rparr>],
       cand_tech_stack = [], cand_ui_preferences = []\<rparr>]"

definition returned_session :: Session where
  "returned_session =
     \<lparr>committed =
        \<lparr>project_summary = ''A dashboard'',
         requirements =
           [\<lparr>req_id = 1, description = ''Use navbar navigation'', status = superseded,
              supersedes = None\<rparr>,
            \<lparr>req_id = 2, description = ''Use sidebar navigation'', status = active,
              supersedes = Some 1\<rparr>,
            \<lparr>req_id = 3, description = ''Use navbar navigation'', status = active,
              supersedes = None\<rparr>],
         tech_stack = [], ui_preferences = Some [], raw_transcript_snapshot = None\<rparr>,
      next_id = 4\<rparr>"

text \<open>The invariant of the identifiers: the ids of the collection increase strictly along
  it, and all lie below the counter.\<close>

definition ids_below :: "nat list \<Rightarrow> nat \<Rightarrow> bool" where
  "ids_below ids n = (sorted_wrt (<) ids \<and> list_all (\<lambda>i. i < n) ids)"

definition ids_ok :: "Requirement list \<times> nat \<Rightarrow> bool" where
  "ids_ok st = ids_below (map req_id (fst st)) (snd st)"

definition session_ok :: "Session \<Rightarrow> bool" where
  "session_ok s = ids_ok (requirements (committed s), next_id s)"

section \<open>Proofs: prompt assembly\<close>

lemma transcript_literal:
  "''\<newline>\<newline>## Raw Transcript Reference\<newline><details>\<newline><summary>Full conversation transcript</summary>\<newline>\<newline>'' @ t @ ''\<newline>\<newline></details>''
   = ''\<newline>\<newline>'' @ transcript_block t"
  unfolding transcript_block_def by simp

lemma transcript_literal1:
  "''\<newline>## Raw Transcript Reference\<newline><details>\<newline><summary>Full conversation transcript</summary>\<newline>\<newline>'' @ t @ ''\<newline>\<newline></details>''
   = ''\<newline>'' @ transcript_block t"
  unfolding transcript_block_def by simp

lemma tech_stack_body_eq:
  "(if length ts > 0 then join '', '' ts
    else ''Use modern best practices - suggest appropriate technologies'') = tech_stack_body ts"
  unfolding tech_stack_body_def by (cases ts) simp_all

lemma requirements_section_eq:
  "join ''\<newline>'' (map (\<lambda>r. ''- '' @ description r) (activeRequirements spec))
   = requirements_section (listed_requirements spec)"
  unfolding requirements_section_def listed_requirements_def activeRequirements_def
  by (simp only: map_map comp_def)

lemma generateSuperPrompt_parts:
  "generateSuperPrompt spec =
     prompt_head (project_summary spec)
     @ ''\<newline>\<newline>## Tech Stack\<newline>'' @ tech_stack_body (tech_stack spec)
     @ ''\<newline>\<newline>## Requirements\<newline>''
     @ requirements_section (listed_requirements spec) @ ''\<newline>''
     @ prompt_tail (ui_preferences spec) (raw_transcript_snapshot spec)"
  unfolding generateSuperPrompt_def tech_stack_body_eq requirements_section_eq
    transcript_literal
  unfolding prompt_head_def prompt_tail_def ui_section_def closing_line_def
  by (simp only: append_assoc)

lemma generateDetailedPrompt_parts:
  "generateDetailedPrompt spec =
     generateSuperPrompt spec @ historical_context spec
     @ (case raw_transcript_snapshot spec of
          Some t \<Rightarrow> if length t > 0 then ''\<newline>'' @ transcript_block t else []
        | None \<Rightarrow> [])"
  unfolding generateDetailedPrompt_def transcript_literal1 historical_context_def
  by (rule refl)

lemma prompt_tail_with_transcript:
  "t \<noteq> [] \<Longrightarrow> prompt_tail ui (Some t) = ui_section ui @ closing_line @ ''\<newline>\<newline>'' @ transcript_block t"
  unfolding prompt_tail_def by simp

text \<open>
  C9. With an empty \<open>tech_stack\<close> the Tech Stack section of the prompt, the text between the
  header \<^verbatim>\<open>## Tech Stack\<close> and the header \<^verbatim>\<open>## Requirements\<close>, is the fixed sentence
  \<^verbatim>\<open>Use modern best practices - suggest appropriate technologies\<close>; with a non-empty
  \<open>tech_stack\<close> it is the entries joined by a comma and a space.
\<close>

theorem tech_stack_section:
  "generateSuperPrompt spec =
     prompt_head (project_summary spec)
     @ ''\<newline>\<newline>## Tech Stack\<newline>''
     @ (if tech_stack spec = []
        then ''Use modern best practices - suggest appropriate technologies''
        else join '', '' (tech_stack spec))
     @ ''\<newline>\<newline>## Requirements\<newline>''
     @ requirements_section (listed_requirements spec) @ ''\<newline>''
     @ prompt_tail (ui_preferences spec) (raw_transcript_snapshot spec)"
  using generateSuperPrompt_parts [of spec] unfolding tech_stack_body_def .

text \<open>
  C5. When \<open>raw_transcript_snapshot\<close> is set and not empty, the prompt of
  \<^verbatim>\<open>generateDetailedPrompt\<close> holds the section \<^verbatim>\<open>## Raw Transcript Reference\<close> with the
  whole transcript twice: at the end of the embedded output of \<^verbatim>\<open>generateSuperPrompt\<close>, and
  once more at its own end, after the historical context.
\<close>

theorem transcript_section_twice:
  assumes "raw_transcript_snapshot spec = Some t" and "t \<noteq> []"
  shows "generateSuperPrompt spec = prompt_core spec @ ''\<newline>\<newline>'' @ transcript_block t
       \<and> generateDetailedPrompt spec =
           generateSuperPrompt spec @ historical_context spec @ ''\<newline>'' @ transcript_block t
       \<and> generateDetailedPrompt spec =
           prompt_core spec @ ''\<newline>\<newline>'' @ transcript_block t
           @ historical_context spec @ ''\<newline>'' @ transcript_block t"
proof -
  have super: "generateSuperPrompt spec = prompt_core spec @ ''\<newline>\<newline>'' @ transcript_block t"
    unfolding generateSuperPrompt_parts prompt_core_def
    by (simp only: assms(1) prompt_tail_with_transcript [OF assms(2)] append_assoc)
  have detailed: "generateDetailedPrompt spec =
      generateSuperPrompt spec @ historical_context spec @ ''\<newline>'' @ transcript_block t"
    unfolding generateDetailedPrompt_parts using assms by simp
  from super detailed show ?thesis by (simp only: append_assoc simp_thms)
qed

lemma listed_requirements_inputs:
  "listed_requirements spec =
     map fst (filter (\<lambda>p. snd p = active) (map (\<lambda>r. (description r, status r)) (requirements spec)))"
  unfolding listed_requirements_def by (induction "requirements spec" arbitrary: spec) (simp_all add: filter_map comp_def)

lemma superseded_inputs:
  "map description (supersededRequirements spec) =
     map fst (filter (\<lambda>p. snd p = superseded) (map (\<lambda>r. (description r, status r)) (requirements spec)))"
  unfolding supersededRequirements_def by (simp add: filter_map comp_def)

lemma historical_context_inputs:
  "historical_context spec =
     (let ds = map description (supersededRequirements spec) in
      if length ds > 0
      then ''\<newline>\<newline>## Historical Context (Changed Requirements)\<newline>The following requirements were initially discussed but later changed:\<newline>''
           @ join ''\<newline>'' (map (\<lambda>d. ''- ~~'' @ d @ ''~~'') ds)
           @ ''\<newline>''
      else [])"
  unfolding historical_context_def Let_def
  by (simp only: map_map comp_def length_map)

text \<open>
  The ids and the supersession links of the requirements do not enter the prompts: two
  specifications that agree on the other fields give the same prompts.
\<close>

lemma prompts_read_fields:
  assumes "prompt_inputs spec1 = prompt_inputs spec2"
  shows "generateSuperPrompt spec1 = generateSuperPrompt spec2
       \<and> generateDetailedPrompt spec1 = generateDetailedPrompt spec2"
proof -
  from assms have f: "project_summary spec1 = project_summary spec2"
    "tech_stack spec1 = tech_stack spec2"
    "ui_preferences spec1 = ui_preferences spec2"
    "raw_transcript_snapshot spec1 = raw_transcript_snapshot spec2"
    and r: "map (\<lambda>r. (description r, status r)) (requirements spec1)
          = map (\<lambda>r. (description r, status r)) (requirements spec2)"
    unfolding prompt_inputs_def by simp_all
  from r have l: "listed_requirements spec1 = listed_requirements spec2"
    by (simp only: listed_requirements_inputs)
  from r have "map description (supersededRequirements spec1)
             = map description (supersededRequirements spec2)"
    by (simp only: superseded_inputs)
  then have h: "historical_context spec1 = historical_context spec2"
    by (simp only: historical_context_inputs)
  have g: "generateSuperPrompt spec1 = generateSuperPrompt spec2"
    by (simp only: generateSuperPrompt_parts f l)
  have "generateDetailedPrompt spec1 = generateDetailedPrompt spec2"
    by (simp only: generateDetailedPrompt_parts g h f)
  with g show ?thesis by (rule conjI)
qed

text \<open>
  C1, as amended. The Requirements section of the prompt of \<^verbatim>\<open>generateSuperPrompt\<close>, the
  text between the header \<^verbatim>\<open>## Requirements\<close> and the tail of the prompt, lists exactly the
  descriptions of the requirements whose status is \<open>active\<close>, in their order in the
  collection, one line \<^verbatim>\<open>- description\<close> each. The description of a superseded requirement
  is listed there only when an active requirement has the same description.
\<close>

theorem requirements_section_lists_active:
  "generateSuperPrompt spec =
     prompt_head (project_summary spec)
     @ ''\<newline>\<newline>## Tech Stack\<newline>'' @ tech_stack_body (tech_stack spec)
     @ ''\<newline>\<newline>## Requirements\<newline>''
     @ join ''\<newline>''
         (map (\<lambda>d. ''- '' @ d)
            (map description (filter (\<lambda>r. status r = active) (requirements spec))))
     @ ''\<newline>''
     @ prompt_tail (ui_preferences spec) (raw_transcript_snapshot spec)
   \<and> (\<forall>r \<in> set (requirements spec). status r = superseded \<longrightarrow>
        (description r \<in> set (map description (filter (\<lambda>r. status r = active) (requirements spec)))
         \<longleftrightarrow> (\<exists>q \<in> set (requirements spec). status q = active \<and> description q = description r)))"
proof (rule conjI)
  show "generateSuperPrompt spec =
     prompt_head (project_summary spec)
     @ ''\<newline>\<newline>## Tech Stack\<newline>'' @ tech_stack_body (tech_stack spec)
     @ ''\<newline>\<newline>## Requirements\<newline>''
     @ join ''\<newline>''
         (map (\<lambda>d. ''- '' @ d)
            (map description (filter (\<lambda>r. status r = active) (requirements spec))))
     @ ''\<newline>''
     @ prompt_tail (ui_preferences spec) (raw_transcript_snapshot spec)"
    using generateSuperPrompt_parts [of spec]
    unfolding requirements_section_def listed_requirements_def .
next
  show "\<forall>r \<in> set (requirements spec). status r = superseded \<longrightarrow>
        (description r \<in> set (map description (filter (\<lambda>r. status r = active) (requirements spec)))
         \<longleftrightarrow> (\<exists>q \<in> set (requirements spec). status q = active \<and> description q = description r))"
    by (fastforce simp: image_iff)
qed

text \<open>
  C1 as stated fails: in \<open>navbar_spec\<close> the first requirement is superseded, and its
  description is the one line of the Requirements section, since the active third
  requirement restates it.
\<close>

theorem superseded_description_listed:
  "status (requirements navbar_spec ! 0) = superseded
   \<and> description (requirements navbar_spec ! 0) = ''Use navbar navigation''
   \<and> generateSuperPrompt navbar_spec =
       ''Build a web application with the following specifications:\<newline>\<newline>## Project Summary\<newline>A dashboard\<newline>\<newline>## Tech Stack\<newline>Use modern best practices - suggest appropriate technologies\<newline>\<newline>## Requirements\<newline>- Use navbar navigation\<newline>\<newline>Please start by scaffolding the main components and implementing the core features.''"
  unfolding generateSuperPrompt_def activeRequirements_def navbar_spec_def by simp

theorem requirements_section_lists_active_witness:
  "requirements sidebar_spec ! 2 \<in> set (requirements sidebar_spec)
   \<and> status (requirements sidebar_spec ! 2) = superseded
   \<and> description (requirements sidebar_spec ! 2) = ''Use navbar navigation''
   \<and> map description (filter (\<lambda>r. status r = active) (requirements sidebar_spec))
       = [''Dark mode UI'', ''Use sidebar navigation'']
   \<and> \<not> (\<exists>q \<in> set (requirements sidebar_spec).
            status q = active \<and> description q = ''Use navbar navigation'')"
  using requirements_section_lists_active [of sidebar_spec]
  unfolding sidebar_spec_def by simp

theorem transcript_section_twice_witness:
  "raw_transcript_snapshot sidebar_spec = Some ''use a sidebar''
   \<and> ''use a sidebar'' \<noteq> []
   \<and> generateDetailedPrompt sidebar_spec =
       prompt_core sidebar_spec @ ''\<newline>\<newline>'' @ transcript_block ''use a sidebar''
       @ historical_context sidebar_spec @ ''\<newline>'' @ transcript_block ''use a sidebar''"
proof -
  have h1: "raw_transcript_snapshot sidebar_spec = Some ''use a sidebar''"
    unfolding sidebar_spec_def by simp
  have h2: "''use a sidebar'' \<noteq> []" by simp
  from transcript_section_twice [OF h1 h2] h1 h2 show ?thesis by blast
qed

text \<open>The content of the download is the detailed prompt, whatever the day; only the name
  of the file carries the date.\<close>

lemma download_content_prompt:
  "download_content (downloadPromptAsFile today spec) = generateDetailedPrompt spec
   \<and> download_name (downloadPromptAsFile today spec) = ''devdraft-spec-'' @ today @ ''.md''"
  unfolding downloadPromptAsFile_def by simp


section \<open>Proofs: clipboard export\<close>

text \<open>
  C10. \<^verbatim>\<open>copyToClipboardAndRedirect\<close> never throws: for every prompt and every one of the
  four tools its promise resolves. When the clipboard write succeeds the result is
  \<^verbatim>\<open>success: true\<close> with the message \<^verbatim>\<open>Prompt copied! Opening NAME...\<close>, \<open>NAME\<close> being
  the name of the tool, and the tool's page has been opened; when the clipboard write throws
  the result is \<^verbatim>\<open>success: false\<close> with the fixed message
  \<^verbatim>\<open>Failed to copy to clipboard. Please try again.\<close>
\<close>

theorem copyToClipboardAndRedirect_resolves:
  "\<not> isl (copyToClipboardAndRedirect b prompt tool)
   \<and> (clipboard_ok b \<longrightarrow>
        copyToClipboardAndRedirect b prompt tool =
          Inr (window_open (b\<lparr>clipboard_text := prompt\<rparr>) (TOOL_URLS tool) ''_blank'',
               \<lparr>success = True,
                message = ''Prompt copied! Opening '' @ TOOL_NAMES tool @ ''...''\<rparr>))
   \<and> (\<not> clipboard_ok b \<longrightarrow>
        copyToClipboardAndRedirect b prompt tool =
          Inr (console_error b ''Failed to copy to clipboard:'',
               \<lparr>success = False,
                message = ''Failed to copy to clipboard. Please try again.''\<rparr>))"
  unfolding copyToClipboardAndRedirect_def copy_try_def writeText_def Let_def
  by (cases "clipboard_ok b") simp_all

theorem copyToClipboardAndRedirect_resolves_witness:
  "clipboard_ok (sample_browser True) \<and> \<not> clipboard_ok (sample_browser False)
   \<and> copyToClipboardAndRedirect (sample_browser True) ''p'' bolt =
       Inr (\<lparr>clipboard_ok = True, clipboard_text = ''p'',
              opened = [(''https://bolt.new'', ''_blank'')], console_errors = []\<rparr>,
            \<lparr>success = True, message = ''Prompt copied! Opening Bolt.new...''\<rparr>)
   \<and> copyToClipboardAndRedirect (sample_browser False) ''p'' bolt =
       Inr (\<lparr>clipboard_ok = False, clipboard_text = [], opened = [],
              console_errors = [''Failed to copy to clipboard:'']\<rparr>,
            \<lparr>success = False, message = ''Failed to copy to clipboard. Please try again.''\<rparr>)"
  using copyToClipboardAndRedirect_resolves [of "sample_browser True" "''p''" bolt]
    copyToClipboardAndRedirect_resolves [of "sample_browser False" "''p''" bolt]
  unfolding sample_browser_def window_open_def console_error_def by simp

section \<open>Proofs: the side panel\<close>

lemma stopCapture_projectSpec: "projectSpec (stopCapture s) = projectSpec s"
  unfolding stopCapture_def Let_def by (simp split: option.split)

lemma stopCapture_fullTranscript: "fullTranscript (stopCapture s) = fullTranscript s"
  unfolding stopCapture_def Let_def by (simp split: option.split)

lemma onmessage_projectSpec:
  "projectSpec (onmessage s m) =
     (case m of Json (project_spec_msg d) \<Rightarrow> d | _ \<Rightarrow> projectSpec s)"
  by (cases "(s, m)" rule: onmessage.cases) simp_all

lemma onmessage_fullTranscript:
  "fullTranscript (onmessage s m) =
     fullTranscript s @ (case m of Json (transcript_msg d) \<Rightarrow> '' '' @ d | _ \<Rightarrow> [])"
  by (cases "(s, m)" rule: onmessage.cases) simp_all

lemma step_fullTranscript:
  "\<not> is_StartCapture e \<Longrightarrow>
     fullTranscript (step s e) = fullTranscript s @ concat (map (\<lambda>d. '' '' @ d) (chunks [e]))"
proof (cases e)
  case (Message m)
  then show ?thesis
    by (cases "(s, m)" rule: onmessage.cases) simp_all
next
  case (SocketError c)
  then show ?thesis by (simp add: onerror_def)
next
  case SocketClose
  then show ?thesis by (simp add: onclose_def)
next
  case (StartCapture m c r)
  assume "\<not> is_StartCapture e"
  with StartCapture show ?thesis by simp
next
  case StopCapture
  then show ?thesis by (simp add: stopCapture_fullTranscript)
qed

lemma chunks_Cons: "chunks (e # es) = chunks [e] @ chunks es"
  by (cases "(e # es)" rule: chunks.cases) simp_all

lemma run_fullTranscript:
  "list_all (\<lambda>e. \<not> is_StartCapture e) es \<Longrightarrow>
     fullTranscript (foldl step s es) = fullTranscript s @ concat (map (\<lambda>d. '' '' @ d) (chunks es))"
proof (induction es arbitrary: s)
  case Nil
  then show ?case by simp
next
  case (Cons e es)
  from Cons.prems have e: "\<not> is_StartCapture e" and es: "list_all (\<lambda>e. \<not> is_StartCapture e) es"
    by simp_all
  have "fullTranscript (foldl step s (e # es)) = fullTranscript (foldl step (step s e) es)"
    by simp
  also have "\<dots> = fullTranscript (step s e) @ concat (map (\<lambda>d. '' '' @ d) (chunks es))"
    by (rule Cons.IH [OF es])
  also have "\<dots> = fullTranscript s @ concat (map (\<lambda>d. '' '' @ d) (chunks [e]))
                    @ concat (map (\<lambda>d. '' '' @ d) (chunks es))"
    by (simp only: step_fullTranscript [OF e] append_assoc)
  also have "\<dots> = fullTranscript s @ concat (map (\<lambda>d. '' '' @ d) (chunks (e # es)))"
    by (subst (2) chunks_Cons) simp
  finally show ?case .
qed

lemma startCapture_resets:
  "starts_session s media conn \<Longrightarrow>
     fullTranscript (startCapture s media conn ok) = [] \<and> projectSpec (startCapture s media conn ok) = None"
  unfolding starts_session_def startCapture_def begin_session_def capture_failed_def Let_def
  by (auto split: media_outcome.splits connect_outcome.splits option.splits)

lemma startCapture_keeps:
  "\<not> starts_session s media conn \<Longrightarrow>
     projectSpec (startCapture s media conn ok) = projectSpec s
     \<and> fullTranscript (startCapture s media conn ok) = fullTranscript s"
  unfolding starts_session_def startCapture_def begin_session_def capture_failed_def Let_def
  by (auto split: media_outcome.splits connect_outcome.splits option.splits)


text \<open>
  C6, as amended. \<^verbatim>\<open>stopCapture\<close> leaves \<open>projectSpec\<close> as it is. Of all the events of
  the component, only two take a specification that is there back to \<^verbatim>\<open>null\<close>: a
  \<^verbatim>\<open>startCapture\<close> that gets as far as beginning a new session, and a \<^verbatim>\<open>project_spec\<close>
  message whose data is \<^verbatim>\<open>null\<close> or absent.
\<close>

theorem stopCapture_keeps_projectSpec:
  "projectSpec (stopCapture s) = projectSpec s
   \<and> (projectSpec s \<noteq> None \<and> projectSpec (step s e) = None \<longrightarrow>
        (\<exists>media conn ok. e = StartCapture media conn ok \<and> starts_session s media conn)
        \<or> e = Message (Json (project_spec_msg None)))"
proof (rule conjI)
  show "projectSpec (stopCapture s) = projectSpec s"
    by (rule stopCapture_projectSpec)
next
  show "projectSpec s \<noteq> None \<and> projectSpec (step s e) = None \<longrightarrow>
        (\<exists>media conn ok. e = StartCapture media conn ok \<and> starts_session s media conn)
        \<or> e = Message (Json (project_spec_msg None))"
  proof (cases e)
    case (Message m)
    then show ?thesis
      by (cases "(s, m)" rule: onmessage.cases) auto
  next
    case (SocketError c)
    then show ?thesis by (auto simp add: onerror_def)
  next
    case SocketClose
    then show ?thesis by (auto simp add: onclose_def)
  next
    case (StartCapture media conn ok)
    show ?thesis
    proof (cases "starts_session s media conn")
      case True
      with StartCapture show ?thesis by blast
    next
      case False
      from startCapture_keeps [OF False, of ok] StartCapture
      have "projectSpec (step s e) = projectSpec s" by simp
      then show ?thesis by auto
    qed
  next
    case StopCapture
    then show ?thesis by (auto simp add: stopCapture_projectSpec)
  qed
qed

theorem stopCapture_keeps_projectSpec_witness:
  "projectSpec (stopCapture loaded_panel) = Some sidebar_spec
   \<and> projectSpec loaded_panel \<noteq> None
   \<and> projectSpec (step loaded_panel (StartCapture (media_granted 1) connect_pending True)) = None
   \<and> starts_session loaded_panel (media_granted 1) connect_pending"
  using stopCapture_keeps_projectSpec
    [of loaded_panel "StartCapture (media_granted 1) connect_pending True"]
  by (simp add: loaded_panel_def initial_panel_def startCapture_def begin_session_def
      stopCapture_def starts_session_def Let_def)

text \<open>
  C6 as stated fails: a \<^verbatim>\<open>project_spec\<close> message whose data is \<^verbatim>\<open>null\<close> clears the
  specification of a panel in the middle of a session, with no \<^verbatim>\<open>startCapture\<close>.
\<close>

theorem project_spec_null_clears:
  "projectSpec loaded_panel = Some sidebar_spec
   \<and> projectSpec (step loaded_panel (Message (Json (project_spec_msg None)))) = None"
  by (simp add: loaded_panel_def initial_panel_def)

lemma concat_spaced_join:
  "concat (map (\<lambda>d. '' '' @ d) cs) = (if cs = [] then [] else '' '' @ join '' '' cs)"
  by (induction cs rule: join.induct [of _ "'' ''"]) simp_all

text \<open>
  C7, as amended. From the start of a capture session on, whatever events follow up to the
  next \<^verbatim>\<open>startCapture\<close>, the full transcript is the concatenation of the transcript chunks
  received since, each preceded by one space: once a chunk has arrived it is a space followed
  by the chunks joined with single spaces. A further \<^verbatim>\<open>transcript\<close> message appends a space
  and its chunk, and no message removes or truncates what has been accumulated: the old
  full transcript is a prefix of the new one.
\<close>

theorem fullTranscript_accumulates:
  assumes "starts_session s media conn"
    and "list_all (\<lambda>e. \<not> is_StartCapture e) es"
  shows "fullTranscript (foldl step (startCapture s media conn ok) es)
           = concat (map (\<lambda>d. '' '' @ d) (chunks es))
       \<and> fullTranscript (foldl step (startCapture s media conn ok) es)
           = (if chunks es = [] then [] else '' '' @ join '' '' (chunks es))
       \<and> fullTranscript (step (foldl step (startCapture s media conn ok) es)
                            (Message (Json (transcript_msg d))))
           = fullTranscript (foldl step (startCapture s media conn ok) es) @ '' '' @ d
       \<and> prefix (fullTranscript s') (fullTranscript (onmessage s' m))"
proof -
  have "fullTranscript (startCapture s media conn ok) = []"
    using startCapture_resets [OF assms(1)] by simp
  then have a: "fullTranscript (foldl step (startCapture s media conn ok) es)
           = concat (map (\<lambda>d. '' '' @ d) (chunks es))"
    using run_fullTranscript [OF assms(2), of "startCapture s media conn ok"] by simp
  then have b: "fullTranscript (foldl step (startCapture s media conn ok) es)
           = (if chunks es = [] then [] else '' '' @ join '' '' (chunks es))"
    by (simp only: concat_spaced_join)
  have c: "fullTranscript (step (foldl step (startCapture s media conn ok) es)
                            (Message (Json (transcript_msg d))))
           = fullTranscript (foldl step (startCapture s media conn ok) es) @ '' '' @ d"
    by simp
  have p: "prefix (fullTranscript s') (fullTranscript (onmessage s' m))"
    by (simp only: onmessage_fullTranscript prefixI)
  from a b c p show ?thesis by (intro conjI)
qed

text \<open>
  C7 as stated fails by the leading space: after the first chunk \<^verbatim>\<open>hello\<close> of a session
  the full transcript is that chunk after a space, not the chunk alone, which is what joining
  the chunks received with spaces gives.
\<close>

theorem fullTranscript_leading_space:
  "fullTranscript (step (startCapture initial_panel (media_granted 1) connect_opened True)
      (Message (Json (transcript_msg ''hello'')))) = '' hello''
   \<and> join '' '' (chunks [Message (Json (transcript_msg ''hello''))]) = ''hello''"
  by (simp add: startCapture_def begin_session_def initial_panel_def Let_def)

theorem fullTranscript_accumulates_witness:
  "starts_session initial_panel (media_granted 1) connect_opened
   \<and> list_all (\<lambda>e. \<not> is_StartCapture e) sample_events
   \<and> fullTranscript (foldl step (startCapture initial_panel (media_granted 1) connect_opened True)
        sample_events) = '' hello world''"
proof -
  have h1: "starts_session initial_panel (media_granted 1) connect_opened"
    unfolding starts_session_def by simp
  have h2: "list_all (\<lambda>e. \<not> is_StartCapture e) sample_events"
    unfolding sample_events_def by simp
  have c: "chunks sample_events = [''hello'', ''world'']"
    unfolding sample_events_def by simp
  from fullTranscript_accumulates [OF h1 h2, of True] c h1 h2 show ?thesis by simp
qed

text \<open>
  C8. Handling a \<^verbatim>\<open>project_spec\<close> message sets the word counter shown to the user to zero,
  along with storing the data delivered, whatever they are.
\<close>

theorem project_spec_resets_word_count:
  "wordCountProgress (onmessage s (Json (project_spec_msg d))) = 0
   \<and> projectSpec (onmessage s (Json (project_spec_msg d))) = d"
  by simp

section \<open>Proofs: the reconciliation engine\<close>

lemma ids_below_snoc: "ids_below ids n \<Longrightarrow> ids_below (ids @ [n]) (Suc n)"
  unfolding ids_below_def by (auto simp: sorted_wrt_append list_all_iff less_Suc_eq)

lemma mark_superseded_ids: "map req_id (mark_superseded old reqs) = map req_id reqs"
  unfolding mark_superseded_def by (induction reqs) simp_all

lemma reconcile_requirement_ids:
  "(map req_id (fst (reconcile_requirement resolves st c)) = map req_id (fst st)
      \<and> snd (reconcile_requirement resolves st c) = snd st)
   \<or> (map req_id (fst (reconcile_requirement resolves st c)) = map req_id (fst st) @ [snd st]
      \<and> snd (reconcile_requirement resolves st c) = Suc (snd st))"
  unfolding reconcile_requirement_def Let_def
  by (simp add: mark_superseded_ids split: option.split)

lemma reconcile_requirement_ids_ok:
  assumes "ids_ok st"
  shows "ids_ok (reconcile_requirement resolves st c)"
  using reconcile_requirement_ids [of resolves st c]
proof
  assume "map req_id (fst (reconcile_requirement resolves st c)) = map req_id (fst st)
      \<and> snd (reconcile_requirement resolves st c) = snd st"
  with assms show ?thesis unfolding ids_ok_def by (simp only:)
next
  assume "map req_id (fst (reconcile_requirement resolves st c)) = map req_id (fst st) @ [snd st]
      \<and> snd (reconcile_requirement resolves st c) = Suc (snd st)"
  with ids_below_snoc [of "map req_id (fst st)" "snd st"] assms
  show ?thesis unfolding ids_ok_def by (simp only:)
qed

lemma reconcile_requirement_prefix:
  "prefix (map req_id (fst st)) (map req_id (fst (reconcile_requirement resolves st c)))"
  using reconcile_requirement_ids [of resolves st c] by auto

lemma foldl_requirement_ids_ok:
  "ids_ok st \<Longrightarrow> ids_ok (foldl (reconcile_requirement resolves) st cs)"
  by (induction cs arbitrary: st) (simp_all add: reconcile_requirement_ids_ok)

lemma foldl_requirement_prefix:
  "prefix (map req_id (fst st)) (map req_id (fst (foldl (reconcile_requirement resolves) st cs)))"
proof (induction cs arbitrary: st)
  case Nil
  show ?case by simp
next
  case (Cons c cs)
  have "prefix (map req_id (fst st)) (map req_id (fst (reconcile_requirement resolves st c)))"
    by (rule reconcile_requirement_prefix)
  also have "prefix \<dots> (map req_id (fst (foldl (reconcile_requirement resolves)
                (reconcile_requirement resolves st c) cs)))"
    by (rule Cons.IH)
  finally show ?case by simp
qed

lemma reconcile_ids:
  "session_ids (reconcile resolves s c) =
     map req_id (fst (foldl (reconcile_requirement resolves)
        (requirements (committed s), next_id s) (cand_requirements c)))"
  "next_id (reconcile resolves s c) =
     snd (foldl (reconcile_requirement resolves)
        (requirements (committed s), next_id s) (cand_requirements c))"
  unfolding reconcile_def session_ids_def Let_def by simp_all

lemma reconcile_session_ok: "session_ok s \<Longrightarrow> session_ok (reconcile resolves s c)"
  using foldl_requirement_ids_ok [of "(requirements (committed s), next_id s)" resolves "cand_requirements c"]
  unfolding session_ok_def reconcile_def Let_def by simp

lemma reconcile_prefix: "prefix (session_ids s) (session_ids (reconcile resolves s c))"
  using foldl_requirement_prefix [of "(requirements (committed s), next_id s)" resolves "cand_requirements c"]
  unfolding reconcile_ids(1) unfolding session_ids_def by simp

lemma reconcile_all_session_ok: "session_ok s \<Longrightarrow> session_ok (reconcile_all resolves s cs)"
  unfolding reconcile_all_def
  by (induction cs arbitrary: s) (simp_all add: reconcile_session_ok)

lemma reconcile_all_prefix: "prefix (session_ids s) (session_ids (reconcile_all resolves s cs))"
  unfolding reconcile_all_def
proof (induction cs arbitrary: s)
  case Nil
  show ?case by simp
next
  case (Cons c cs)
  have "prefix (session_ids s) (session_ids (reconcile resolves s c))"
    by (rule reconcile_prefix)
  also have "prefix \<dots> (session_ids (foldl (reconcile resolves) (reconcile resolves s c) cs))"
    by (rule Cons.IH)
  finally show ?case by simp
qed

lemma new_session_ok: "session_ok new_session"
  unfolding session_ok_def ids_ok_def ids_below_def new_session_def by simp

text \<open>
  C3. After any sequence of reconciliations from the start of a session, the ids of the
  requirements increase strictly along the collection, which is their order of assignment
  since every new requirement is appended; they all lie below the counter, from which the
  next id will be taken; and further reconciliations keep the ids assigned so far as a
  prefix. So no id is assigned twice, whether or not its requirement supersedes another.
\<close>

theorem requirement_ids_monotonic:
  "sorted_wrt (<) (session_ids (reconcile_all resolves new_session cs))
   \<and> list_all (\<lambda>i. i < next_id (reconcile_all resolves new_session cs))
        (session_ids (reconcile_all resolves new_session cs))
   \<and> prefix (session_ids (reconcile_all resolves new_session cs))
        (session_ids (reconcile_all resolves new_session (cs @ cs')))"
proof -
  have "session_ok (reconcile_all resolves new_session cs)"
    by (rule reconcile_all_session_ok [OF new_session_ok])
  then have "sorted_wrt (<) (session_ids (reconcile_all resolves new_session cs))"
    and "list_all (\<lambda>i. i < next_id (reconcile_all resolves new_session cs))
        (session_ids (reconcile_all resolves new_session cs))"
    unfolding session_ok_def ids_ok_def ids_below_def session_ids_def by simp_all
  moreover have "reconcile_all resolves new_session (cs @ cs')
      = reconcile_all resolves (reconcile_all resolves new_session cs) cs'"
    unfolding reconcile_all_def by simp
  then have "prefix (session_ids (reconcile_all resolves new_session cs))
        (session_ids (reconcile_all resolves new_session (cs @ cs')))"
    by (simp only: reconcile_all_prefix)
  ultimately show ?thesis by simp
qed

lemma same_text_refl: "same_text a a"
  unfolding same_text_def by simp

lemma hint_target_None:
  "hint_target resolves reqs h = None
     \<longleftrightarrow> \<not> list_ex (\<lambda>r. status r = active \<and> resolves h r) reqs"
proof (cases "filter (\<lambda>r. status r = active \<and> resolves h r) reqs")
  case Nil
  then show ?thesis
    unfolding hint_target_def list_ex_iff by (simp add: filter_empty_conv)
next
  case (Cons x xs)
  then have "x \<in> set (filter (\<lambda>r. status r = active \<and> resolves h r) reqs)"
    by simp
  then have "list_ex (\<lambda>r. status r = active \<and> resolves h r) reqs"
    unfolding list_ex_iff by auto
  with Cons show ?thesis
    unfolding hint_target_def by simp
qed

lemma hinted_target_None:
  "(case supersession_hint c of None \<Rightarrow> None | Some h \<Rightarrow> hint_target resolves reqs h) = None
     \<longleftrightarrow> (case supersession_hint c of
            None \<Rightarrow> True
          | Some h \<Rightarrow> \<not> list_ex (\<lambda>r. status r = active \<and> resolves h r) reqs)"
  by (cases "supersession_hint c") (simp_all add: hint_target_None)

lemma mark_superseded_length: "length (mark_superseded old reqs) = length reqs"
  unfolding mark_superseded_def by simp

lemma reconcile_requirement_restated:
  assumes "restates_active resolves reqs c"
  shows "reconcile_requirement resolves (reqs, n) c = (reqs, n)"
proof -
  from assms have t: "(case supersession_hint c of
        None \<Rightarrow> None | Some h \<Rightarrow> hint_target resolves reqs h) = None"
    and m: "list_ex (\<lambda>r. status r = active \<and> same_text (description r) (cand_description c)) reqs"
    unfolding restates_active_def by (simp_all add: hinted_target_None)
  show ?thesis
    unfolding reconcile_requirement_def Let_def fst_conv snd_conv t
    using m by simp
qed

lemma reconcile_requirement_new:
  assumes "\<not> restates_active resolves reqs c"
  shows "length (fst (reconcile_requirement resolves (reqs, n) c)) = Suc (length reqs)"
proof (cases "case supersession_hint c of None \<Rightarrow> None | Some h \<Rightarrow> hint_target resolves reqs h")
  case None
  with assms have "\<not> list_ex (\<lambda>r. status r = active
      \<and> same_text (description r) (cand_description c)) reqs"
    unfolding restates_active_def by (simp add: hinted_target_None)
  with None show ?thesis
    unfolding reconcile_requirement_def Let_def fst_conv snd_conv by simp
next
  case (Some old)
  then show ?thesis
    unfolding reconcile_requirement_def Let_def fst_conv snd_conv
    by (simp add: mark_superseded_length)
qed

lemma foldl_requirement_length:
  "length (fst st) \<le> length (fst (foldl (reconcile_requirement resolves) st cs))"
  using prefix_length_le [OF foldl_requirement_prefix [of st resolves cs]] by simp

lemma foldl_restated_iff:
  "fst (foldl (reconcile_requirement resolves) (reqs, n) crs) = reqs
     \<longleftrightarrow> list_all (restates_active resolves reqs) crs"
proof (induction crs)
  case Nil
  show ?case by simp
next
  case (Cons cr crs)
  show ?case
  proof (cases "restates_active resolves reqs cr")
    case True
    then have "reconcile_requirement resolves (reqs, n) cr = (reqs, n)"
      by (rule reconcile_requirement_restated)
    with True Cons.IH show ?thesis by simp
  next
    case False
    let ?st = "reconcile_requirement resolves (reqs, n) cr"
    from False have "length (fst ?st) = Suc (length reqs)"
      by (rule reconcile_requirement_new)
    with foldl_requirement_length [of ?st resolves crs]
    have "length reqs < length (fst (foldl (reconcile_requirement resolves) ?st crs))"
      by simp
    then have "fst (foldl (reconcile_requirement resolves) (reqs, n) (cr # crs)) \<noteq> reqs"
      by auto
    with False show ?thesis by simp
  qed
qed



lemma reconcile_requirements:
  "requirements (committed (reconcile resolves s c)) =
     fst (foldl (reconcile_requirement resolves) (requirements (committed s), next_id s)
            (cand_requirements c))"
  unfolding reconcile_def Let_def by simp


text \<open>The candidate identical in content to a committed specification restates active
  requirements; whether it changes the collection depends on its hints alone.\<close>

lemma identical_candidate_idempotent_iff:
  "requirements (committed (reconcile resolves_by_text s (identical_candidate (committed s))))
     = requirements (committed s)
   \<longleftrightarrow> list_all (\<lambda>cr. case supersession_hint cr of
                        None \<Rightarrow> True
                      | Some h \<Rightarrow> \<not> list_ex (\<lambda>r. status r = active \<and> resolves_by_text h r)
                                     (requirements (committed s)))
         (cand_requirements (identical_candidate (committed s)))"
proof -
  have "list_ex (\<lambda>r. status r = active \<and> same_text (description r) (cand_description cr))
          (requirements (committed s))"
    if "cr \<in> set (cand_requirements (identical_candidate (committed s)))" for cr
    using that same_text_refl
    unfolding identical_candidate_def activeRequirements_def list_ex_iff by auto
  then show ?thesis
    unfolding reconcile_requirements foldl_restated_iff restates_active_def list_all_iff
    by blast
qed

lemma sample_run:
  "reconcile_all resolves_by_text new_session [first_candidate, second_candidate] = sample_session"
  by code_simp

theorem requirement_ids_monotonic_witness:
  "session_ids (reconcile_all resolves_by_text new_session [first_candidate, second_candidate])
     = [1, 2, 3]
   \<and> sorted_wrt (<) (session_ids (reconcile_all resolves_by_text new_session [first_candidate, second_candidate]))
   \<and> next_id (reconcile_all resolves_by_text new_session [first_candidate, second_candidate]) = 4
   \<and> prefix (session_ids (reconcile_all resolves_by_text new_session [first_candidate]))
        (session_ids (reconcile_all resolves_by_text new_session ([first_candidate] @ [second_candidate])))"
proof -
  have ids: "session_ids sample_session = [1, 2, 3]" and n: "next_id sample_session = 4"
    unfolding session_ids_def sample_session_def by simp_all
  from requirement_ids_monotonic [of resolves_by_text "[first_candidate, second_candidate]" "[]"]
    requirement_ids_monotonic [of resolves_by_text "[first_candidate]" "[second_candidate]"]
    ids n
  show ?thesis by (simp only: sample_run simp_thms)
qed


text \<open>
  C2 as stated fails. \<open>returned_session\<close> is a state the engine reaches. The candidate
  identical in content to it restates the two active requirements in their order, the
  sidebar with its committed supersession of the navbar; by text that hint resolves to the
  navbar requirement that is active now, so step 3a supersedes requirement 3 and issues id 4,
  after which the navbar matches no active requirement and step 3c issues id 5.
\<close>

lemma returned_session_reachable:
  "reconcile_all resolves_by_text new_session returned_candidates = returned_session"
  by code_simp


text \<open>
  The engine on the samples: the requirements of \<open>navbar_spec\<close> are what three
  reconciliations of a new session give; the scenario of section 8 of the specification
  comes out as it is described there; and a superseded description that comes back as a
  plain candidate requirement is a new requirement (step 3c).
\<close>

lemma navbar_spec_reachable:
  "requirements (committed (reconcile_all resolves_by_text new_session navbar_candidates))
     = requirements navbar_spec"
  by code_simp

lemma spec_scenario:
  "requirements (committed (reconcile resolves_by_text scenario_session scenario_candidate)) =
     [\<lparr>req_id = 1, description = ''Dark mode UI'', status = active, supersedes = None\<rparr>,
      \<lparr>req_id = 2, description = ''Show prices'', status = active, supersedes = None\<rparr>,
      \<lparr>req_id = 3, description = ''Use navbar navigation'', status = superseded,
        supersedes = None\<rparr>,
      \<lparr>req_id = 4, description = ''Use sidebar navigation'', status = active,
        supersedes = Some 3\<rparr>]"
  by code_simp

lemma superseded_description_is_new:
  "session_ids (reconcile resolves_by_text sample_session
      \<lparr>cand_summary = ''A dashboard'',
       cand_requirements =
         [\<lparr>cand_description = ''Use navbar navigation'', supersession_hint = None\<rparr>],
       cand_tech_stack = [], cand_ui_preferences = []\<rparr>) = [1, 2, 3, 4]"
  by code_simp

end
